theory Spec2Isabelle
  imports Main
begin

section \<open>Strings and the fixed texts of the application\<close>

text \<open>
  A Python \<open>str\<close> is modelled as the list of its code points, so that \<open>len\<close>, slicing and
  \<open>strip\<close> count what Python counts (the application is used with Arabic names, which are
  not single bytes). \<open>bytes\<close> are lists of numbers as well.
\<close>

type_synonym pystr = "nat list"
type_synonym pybytes = "nat list"

definition text_of :: "string \<Rightarrow> pystr" where
  "text_of s = map of_char s"

text \<open>
  \<open>str.isspace\<close> of one character: the code points Python 3 treats as whitespace, which are
  the ones \<open>str.strip()\<close> removes.
\<close>

definition isspace :: "nat \<Rightarrow> bool" where
  "isspace c = (c \<in> set [9, 10, 11, 12, 13, 28, 29, 30, 31, 32, 133, 160, 5760,
     8192, 8193, 8194, 8195, 8196, 8197, 8198, 8199, 8200, 8201, 8202,
     8232, 8233, 8239, 8287, 12288])"

text \<open>\<open>s.strip()\<close>: leading and trailing whitespace removed, the inside left as it is.\<close>

definition strip :: "pystr \<Rightarrow> pystr" where
  "strip s = rev (dropWhile isspace (rev (dropWhile isspace s)))"

text \<open>
  \<open>s.replace(old, new)\<close>: the occurrences of \<open>old\<close> are replaced from left to right, an
  occurrence starting where the one before it ended; for an empty \<open>old\<close>, \<open>new\<close> is put
  before every character and at the end.
\<close>

function replace :: "pystr \<Rightarrow> pystr \<Rightarrow> pystr \<Rightarrow> pystr" where
  "replace [] old new = (if old = [] then new else [])"
| "replace (c # cs) old new =
     (if old = [] then new @ concat (map (\<lambda>x. x # new) (c # cs))
      else if take (length old) (c # cs) = old
           then new @ replace (drop (length old) (c # cs)) old new
           else c # replace cs old new)"
  by pat_completeness auto
termination
  by (relation "measure (\<lambda>(s, old, new). length s)") auto

text \<open>The four validation messages (app.py, lines 293, 296, 299 and 302), as code points.\<close>

definition msg_name :: pystr where
  "msg_name = [9888, 65039, 32, 1610, 1580, 1576, 32, 1573, 1583, 1582, 1575, 1604, 32,
     1575, 1587, 1605, 32, 1575, 1604, 1591, 1575, 1604, 1576, 32, 1575, 1604, 1579, 1604,
     1575, 1579, 1610, 32, 40, 54, 32, 1571, 1581, 1585, 1601, 32, 1593, 1604, 1609, 32,
     1575, 1604, 1571, 1602, 1604, 41]"

definition msg_title :: pystr where
  "msg_title = [9888, 65039, 32, 1610, 1580, 1576, 32, 1573, 1583, 1582, 1575, 1604, 32,
     1593, 1606, 1608, 1575, 1606, 32, 1575, 1604, 1605, 1588, 1585, 1608, 1593, 32, 40, 53,
     32, 1571, 1581, 1585, 1601, 32, 1593, 1604, 1609, 32, 1575, 1604, 1571, 1602, 1604, 41]"

definition msg_nofile :: pystr where
  "msg_nofile = [9888, 65039, 32, 1610, 1580, 1576, 32, 1575, 1582, 1578, 1610, 1575, 1585,
     32, 1605, 1604, 1601, 32, 80, 68, 70, 32, 1604, 1604, 1605, 1588, 1585, 1608, 1593]"

definition msg_size :: pystr where
  "msg_size = [9888, 65039, 32, 1581, 1580, 1605, 32, 1575, 1604, 1605, 1604, 1601, 32,
     1610, 1578, 1580, 1575, 1608, 1586, 32, 1575, 1604, 1581, 1583, 32, 1575, 1604, 1605,
     1587, 1605, 1608, 1581, 32, 40, 49, 48, 32, 77, 66, 41]"

text \<open>The prefixes the \<open>except\<close> clauses put before \<open>str(e)\<close> (lines 82, 134, 158, 202, 367).\<close>

definition save_prefix :: pystr where
  "save_prefix = [1601, 1588, 1604, 32, 1581, 1601, 1592, 32, 1575, 1604, 1576, 1610, 1575,
     1606, 1575, 1578, 58, 32]"

definition folder_prefix :: pystr where
  "folder_prefix = [1582, 1591, 1571, 32, 1601, 1610, 32, 1573, 1606, 1588, 1575, 1569, 47,
     1575, 1604, 1576, 1581, 1579, 32, 1593, 1606, 32, 1575, 1604, 1605, 1580, 1604, 1583,
     32, 39]"

definition structure_prefix :: pystr where
  "structure_prefix = [1582, 1591, 1571, 32, 1601, 1610, 32, 1573, 1606, 1588, 1575, 1569,
     32, 1607, 1610, 1603, 1604, 1577, 32, 1575, 1604, 1605, 1580, 1604, 1583, 1575, 1578,
     58, 32]"

definition upload_prefix :: pystr where
  "upload_prefix = [1601, 1588, 1604, 32, 1585, 1601, 1593, 32, 1575, 1604, 1605, 1604,
     1601, 58, 32]"

definition main_error_prefix :: pystr where
  "main_error_prefix = [10060, 32, 1581, 1583, 1579, 32, 1582, 1591, 1571, 32, 1571, 1579,
     1606, 1575, 1569, 32, 1585, 1601, 1593, 32, 1575, 1604, 1605, 1588, 1585, 1608, 1593,
     58, 32]"

text \<open>The warning after a failure (line 368) and the success message (line 350).\<close>

definition msg_not_saved :: pystr where
  "msg_not_saved = [1604, 1605, 32, 1610, 1578, 1605, 32, 1581, 1601, 1592, 32, 1575, 1604,
     1576, 1610, 1575, 1606, 1575, 1578, 46, 32, 1575, 1604, 1585, 1580, 1575, 1569, 32,
     1575, 1604, 1605, 1581, 1575, 1608, 1604, 1577, 32, 1605, 1585, 1577, 32, 1571, 1582,
     1585, 1609, 46]"

definition msg_success :: pystr where
  "msg_success = [9989, 32, 1578, 1605, 32, 1585, 1601, 1593, 32, 1575, 1604, 1605, 1588,
     1585, 1608, 1593, 32, 1576, 1606, 1580, 1575, 1581, 33]"

text \<open>The pieces of the details text (lines 354 to 361) and of the link (line 364).\<close>

definition info_indent :: pystr where
  "info_indent = 10 # replicate 20 32"

definition info_heading :: pystr where
  "info_heading = info_indent @ [42, 42, 1578, 1601, 1575, 1589, 1610, 1604, 32, 1575, 1604,
     1578, 1587, 1604, 1610, 1605, 58, 42, 42]"

definition info_student :: pystr where
  "info_student = info_indent @ [45, 32, 42, 42, 1575, 1604, 1591, 1575, 1604, 1576, 58, 42,
     42, 32]"

definition info_project :: pystr where
  "info_project = info_indent @ [45, 32, 42, 42, 1575, 1604, 1605, 1588, 1585, 1608, 1593,
     58, 42, 42, 32]"

definition info_grade :: pystr where
  "info_grade = info_indent @ [45, 32, 42, 42, 1575, 1604, 1605, 1585, 1581, 1604, 1577, 58,
     42, 42, 32]"

definition info_section :: pystr where
  "info_section = info_indent @ [45, 32, 42, 42, 1575, 1604, 1588, 1593, 1576, 1577, 58, 42,
     42, 32]"

definition info_date :: pystr where
  "info_date = info_indent @ [45, 32, 42, 42, 1575, 1604, 1578, 1575, 1585, 1610, 1582, 58,
     42, 42, 32]"

definition link_label :: pystr where
  "link_label = [91, 128279, 32, 1593, 1585, 1590, 32, 1575, 1604, 1605, 1604, 1601, 32,
     1601, 1610, 32, 71, 111, 111, 103, 108, 101, 32, 68, 114, 105, 118, 101, 93, 40]"


section \<open>The form and its validation\<close>

text \<open>
  What the form hands to the submit handler: the two selections, the two text inputs
  (\<open>st.text_input\<close> returns a \<open>str\<close>, empty when nothing was typed) and the file picker's
  value (\<open>None\<close> when no file was chosen). Of an uploaded file the handler reads \<open>.size\<close>
  and \<open>.read()\<close>.
\<close>

record UploadedFile =
  file_size :: int
  file_bytes :: pybytes

record form =
  selected_grade :: pystr
  selected_section :: pystr
  student_name :: pystr
  project_title :: pystr
  uploaded_file :: "UploadedFile option"

text \<open>
  Lines 290 to 302: the list \<open>errors\<close> starts empty and each of the four \<open>if\<close> statements
  appends its message. \<open>not s\<close> on a string is \<open>s = []\<close>; an uploaded file object is always
  true, so \<open>uploaded_file and ...\<close> tests that a file is there.
\<close>

definition validate :: "form \<Rightarrow> pystr list" where
  "validate f =
     (let errors = [];
          errors = (if student_name f = [] \<or> length (strip (student_name f)) < 6
                    then errors @ [msg_name] else errors);
          errors = (if project_title f = [] \<or> length (strip (project_title f)) < 5
                    then errors @ [msg_title] else errors);
          errors = (if uploaded_file f = None
                    then errors @ [msg_nofile] else errors);
          errors = (if (case uploaded_file f of None \<Rightarrow> False
                        | Some u \<Rightarrow> file_size u > 10 * 1024 * 1024)
                    then errors @ [msg_size] else errors)
      in errors)"


section \<open>The storage service\<close>

text \<open>
  Modelled from the spec: the storage service and its client library, which are not part of
  the repository (folder and file search by name, type and optional parent; create with a
  name and optional parents; upload of content; permission grant). The service is the list
  of the resources it holds, in the order it answers a search with, and a new resource is
  put at the end. Every request sent to the service (each \<open>.execute()\<close>) takes the next
  entry of \<open>outcomes\<close>: \<open>None\<close> lets the request succeed, \<open>Some m\<close> makes it raise an
  exception \<open>e\<close> with \<open>str(e) = m\<close>; when the script is used up, requests succeed, and
  \<open>calls\<close> counts the requests made. \<open>local_files\<close> are the files of the machine the
  application runs on, by path. A function returns its result (\<open>Inl\<close> the message of the
  exception it raises) together with the service as the call leaves it, so that what stays
  in storage after a failure is visible.
\<close>

record resource =
  res_id :: pystr
  res_name :: pystr
  res_mimeType :: pystr
  res_parents :: "pystr list"
  res_content :: pybytes
  res_permissions :: "(pystr \<times> pystr) list"
  res_webViewLink :: pystr

record drive =
  files :: "resource list"
  outcomes :: "pystr option list"
  calls :: nat
  local_files :: "(pystr \<times> pybytes) list"

text \<open>The outcome of the \<open>k\<close>-th coming request, and the service after one was taken.\<close>

definition outcome_at :: "drive \<Rightarrow> nat \<Rightarrow> pystr option" where
  "outcome_at d k = (case drop k (outcomes d) of [] \<Rightarrow> None | out # _ \<Rightarrow> out)"

definition advance :: "drive \<Rightarrow> drive" where
  "advance d = d\<lparr>outcomes := tl (outcomes d), calls := Suc (calls d)\<rparr>"

definition execute :: "drive \<Rightarrow> pystr option \<times> drive" where
  "execute d = (outcome_at d 0, advance d)"

text \<open>
  A search is sent as one text, which the service reads in its query language. Of that
  language the model has the terms \<open>name = 'v'\<close>, \<open>mimeType = 'v'\<close> and \<open>'v' in parents\<close>,
  joined by \<open>and\<close> and \<open>or\<close> (\<open>and\<close> binding tighter), with blanks between the words as one
  likes; inside the quotes a backslash makes the next character part of the value, and a
  quote ends the value. Every other text is refused as an invalid query. The text is cut
  into words, quoted values and equals signs, and these are read as a disjunction of
  conjunctions of terms.
\<close>

datatype token = Word pystr | Quoted pystr | Equals

fun flush :: "pystr \<Rightarrow> token list \<Rightarrow> token list" where
  "flush [] ts = ts"
| "flush (c # acc) ts = Word (rev (c # acc)) # ts"

fun lex :: "pystr \<Rightarrow> pystr \<Rightarrow> token list option"
  and lex_quoted :: "pystr \<Rightarrow> pystr \<Rightarrow> token list option" where
  "lex acc [] = Some (flush acc [])"
| "lex acc (c # cs) =
     (if c = 39 then map_option (flush acc) (lex_quoted [] cs)
      else if c = 32 then map_option (flush acc) (lex [] cs)
      else if c = 61 then map_option (\<lambda>ts. flush acc (Equals # ts)) (lex [] cs)
      else lex (c # acc) cs)"
| "lex_quoted acc [] = None"
| "lex_quoted acc [c] = (if c = 39 then Some [Quoted (rev acc)] else None)"
| "lex_quoted acc (c # e # cs) =
     (if c = 39 then map_option (Cons (Quoted (rev acc))) (lex [] (e # cs))
      else if c = 92 then lex_quoted (e # acc) cs
      else lex_quoted (c # acc) (e # cs))"

datatype cond = NameIs pystr | MimeTypeIs pystr | InParents pystr

definition field_cond :: "pystr \<Rightarrow> pystr \<Rightarrow> cond option" where
  "field_cond w v =
     (if w = text_of ''name'' then Some (NameIs v)
      else if w = text_of ''mimeType'' then Some (MimeTypeIs v)
      else None)"

fun parse_terms :: "token list \<Rightarrow> cond list list option"
  and parse_more :: "cond \<Rightarrow> token list \<Rightarrow> cond list list option" where
  "parse_terms (Word w # Equals # Quoted v # rest) =
     (case field_cond w v of None \<Rightarrow> None | Some c \<Rightarrow> parse_more c rest)"
| "parse_terms (Quoted v # Word a # Word b # rest) =
     (if a = text_of ''in'' \<and> b = text_of ''parents'' then parse_more (InParents v) rest
      else None)"
| "parse_terms _ = None"
| "parse_more c [] = Some [[c]]"
| "parse_more c (Word w # rest) =
     (if w = text_of ''and''
      then (case parse_terms rest of
              Some (cj # ds) \<Rightarrow> Some ((c # cj) # ds)
            | _ \<Rightarrow> None)
      else if w = text_of ''or''
      then (case parse_terms rest of
              Some ds \<Rightarrow> Some ([c] # ds)
            | None \<Rightarrow> None)
      else None)"
| "parse_more c _ = None"

definition parse_query :: "pystr \<Rightarrow> cond list list option" where
  "parse_query q = (case lex [] q of None \<Rightarrow> None | Some ts \<Rightarrow> parse_terms ts)"

fun holds :: "resource \<Rightarrow> cond \<Rightarrow> bool" where
  "holds r (NameIs v) = (res_name r = v)"
| "holds r (MimeTypeIs v) = (res_mimeType r = v)"
| "holds r (InParents v) = (v \<in> set (res_parents r))"

definition matches :: "cond list list \<Rightarrow> resource \<Rightarrow> bool" where
  "matches q r = list_ex (list_all (holds r)) q"

definition invalid_query :: pystr where
  "invalid_query = text_of ''Invalid query''"

text \<open>\<open>files().list(q=..., pageSize=n).execute()\<close>: the first \<open>n\<close> matching resources.\<close>

definition files_list :: "drive \<Rightarrow> pystr \<Rightarrow> nat \<Rightarrow> (pystr + resource list) \<times> drive" where
  "files_list d q pageSize =
     (case execute d of
        (Some e, d') \<Rightarrow> (Inl e, d')
      | (None, d') \<Rightarrow>
          (case parse_query q of
             None \<Rightarrow> (Inl invalid_query, d')
           | Some conds \<Rightarrow> (Inr (take pageSize (filter (matches conds) (files d'))), d')))"

text \<open>
  The service gives a new resource an id of its own choice; here it is a text of letters,
  longer than every id in storage, hence not empty and different from all of them.
\<close>

fun max_id_length :: "resource list \<Rightarrow> nat" where
  "max_id_length [] = 0"
| "max_id_length (r # rs) = max (length (res_id r)) (max_id_length rs)"

definition fresh_id :: "resource list \<Rightarrow> pystr" where
  "fresh_id rs = replicate (Suc (max_id_length rs)) 120"

definition view_link :: "pystr \<Rightarrow> pystr" where
  "view_link i = text_of ''https://drive.google.com/file/d/'' @ i @ text_of ''/view''"

definition folder_mimeType :: pystr where
  "folder_mimeType = text_of ''application/vnd.google-apps.folder''"

definition pdf_mimeType :: pystr where
  "pdf_mimeType = text_of ''application/pdf''"

definition default_mimeType :: pystr where
  "default_mimeType = text_of ''application/octet-stream''"

text \<open>The \<open>body\<close> dictionary of a create call, and the media object of an upload.\<close>

record metadata =
  md_name :: pystr
  md_mimeType :: "pystr option"
  md_parents :: "pystr list option"

record media =
  media_bytes :: pybytes
  media_mimetype :: pystr

text \<open>
  Modelled from the spec: \<open>MediaFileUpload(filename, mimetype, resumable)\<close> of the client
  library, which is not part of the repository. Its first argument is the path of a file,
  which the constructor opens (\<open>open(filename, 'rb')\<close>) before it does anything else. A
  path that names no file makes \<open>open\<close> raise; an object that is not a path, such as the
  \<open>io.BytesIO\<close> of line 183, makes it raise a \<open>TypeError\<close> whose text is
  \<open>type_error_BytesIO\<close>. No request is sent to the service.
\<close>

datatype media_source = FileName pystr | BytesIO pybytes

definition type_error_BytesIO :: pystr where
  "type_error_BytesIO = text_of ''expected str, bytes or os.PathLike object, not BytesIO''"

definition no_such_file :: "pystr \<Rightarrow> pystr" where
  "no_such_file path =
     text_of ''[Errno 2] No such file or directory: '' @ [39] @ path @ [39]"

definition MediaFileUpload ::
  "(pystr \<times> pybytes) list \<Rightarrow> media_source \<Rightarrow> pystr \<Rightarrow> pystr + media" where
  "MediaFileUpload local filename mimetype =
     (case filename of
        BytesIO _ \<Rightarrow> Inl type_error_BytesIO
      | FileName path \<Rightarrow>
          (case map_of local path of
             None \<Rightarrow> Inl (no_such_file path)
           | Some content \<Rightarrow> Inr \<lparr>media_bytes = content, media_mimetype = mimetype\<rparr>))"

text \<open>
  \<open>files().create(body=..., media_body=...).execute()\<close>: a failed call stores nothing. A
  body without \<open>parents\<close> puts the resource at the root, written as no parent at all.
  \<open>created\<close> is the resource such a call stores.
\<close>

definition created :: "resource list \<Rightarrow> metadata \<Rightarrow> media option \<Rightarrow> resource" where
  "created rs body media_body =
     \<lparr>res_id = fresh_id rs,
      res_name = md_name body,
      res_mimeType =
        (case md_mimeType body of
           Some m \<Rightarrow> m
         | None \<Rightarrow> (case media_body of Some b \<Rightarrow> media_mimetype b | None \<Rightarrow> default_mimeType)),
      res_parents = (case md_parents body of Some ps \<Rightarrow> ps | None \<Rightarrow> []),
      res_content = (case media_body of Some b \<Rightarrow> media_bytes b | None \<Rightarrow> []),
      res_permissions = [],
      res_webViewLink = view_link (fresh_id rs)\<rparr>"

definition files_create ::
  "drive \<Rightarrow> metadata \<Rightarrow> media option \<Rightarrow> (pystr + resource) \<times> drive" where
  "files_create d body media_body =
     (case execute d of
        (Some e, d') \<Rightarrow> (Inl e, d')
      | (None, d') \<Rightarrow>
          (let r = created (files d') body media_body
           in (Inr r, d'\<lparr>files := files d' @ [r]\<rparr>)))"

text \<open>\<open>permissions().create(fileId=..., body={'type': t, 'role': r}).execute()\<close>.\<close>

definition grant :: "pystr \<Rightarrow> pystr \<times> pystr \<Rightarrow> resource \<Rightarrow> resource" where
  "grant fileId p r =
     (if res_id r = fileId then r\<lparr>res_permissions := res_permissions r @ [p]\<rparr> else r)"

definition permissions_create ::
  "drive \<Rightarrow> pystr \<Rightarrow> pystr \<times> pystr \<Rightarrow> (pystr + unit) \<times> drive" where
  "permissions_create d fileId body =
     (case execute d of
        (Some e, d') \<Rightarrow> (Inl e, d')
      | (None, d') \<Rightarrow>
          (if fileId \<in> set (map res_id (files d'))
           then (Inr (), d'\<lparr>files := map (grant fileId body) (files d')\<rparr>)
           else (Inl (text_of ''File not found: '' @ fileId), d')))"


section \<open>The folder functions (app.py, lines 88 to 158)\<close>

text \<open>\<open>if parent_id:\<close> holds for a string that is there and not empty.\<close>

definition truthy :: "pystr option \<Rightarrow> bool" where
  "truthy p = (case p of None \<Rightarrow> False | Some s \<Rightarrow> s \<noteq> [])"

text \<open>Line 134: the prefix, the folder name, a quote, a colon and a space, then \<open>str(e)\<close>.\<close>

definition folder_error :: "pystr \<Rightarrow> pystr \<Rightarrow> pystr" where
  "folder_error folder_name e = folder_prefix @ folder_name @ [39, 58, 32] @ e"

text \<open>
  Lines 102 to 104 paste the folder name and the parent id between quotes (code point 39)
  into the search text as they are.
\<close>

definition find_or_create_folder ::
  "drive \<Rightarrow> pystr \<Rightarrow> pystr option \<Rightarrow> (pystr + pystr) \<times> drive" where
  "find_or_create_folder service folder_name parent_id =
     (let query = text_of ''name='' @ [39] @ folder_name @ [39] @
                  text_of '' and mimeType='' @ [39] @ folder_mimeType @ [39];
          query = (case parent_id of
                     None \<Rightarrow> query
                   | Some p \<Rightarrow>
                       if p \<noteq> []
                       then query @ text_of '' and '' @ [39] @ p @ [39] @ text_of '' in parents''
                       else query)
      in case files_list service query 1 of
           (Inl e, s1) \<Rightarrow> (Inl (folder_error folder_name e), s1)
         | (Inr found, s1) \<Rightarrow>
             (case found of
                r # _ \<Rightarrow> (Inr (res_id r), s1)
              | [] \<Rightarrow>
                  (let file_metadata = \<lparr>md_name = folder_name,
                                        md_mimeType = Some folder_mimeType,
                                        md_parents = None\<rparr>;
                       file_metadata =
                         (if truthy parent_id
                          then file_metadata\<lparr>md_parents := map_option (\<lambda>p. [p]) parent_id\<rparr>
                          else file_metadata)
                   in case files_create s1 file_metadata None of
                        (Inl e, s2) \<Rightarrow> (Inl (folder_error folder_name e), s2)
                      | (Inr folder, s2) \<Rightarrow> (Inr (res_id folder), s2))))"

definition create_folder_structure ::
  "drive \<Rightarrow> pystr \<Rightarrow> pystr \<Rightarrow> pystr \<Rightarrow> pystr \<Rightarrow> (pystr + pystr) \<times> drive" where
  "create_folder_structure service year semester grade section =
     (case find_or_create_folder service year None of
        (Inl e, s1) \<Rightarrow> (Inl (structure_prefix @ e), s1)
      | (Inr year_folder_id, s1) \<Rightarrow>
     (case find_or_create_folder s1 semester (Some year_folder_id) of
        (Inl e, s2) \<Rightarrow> (Inl (structure_prefix @ e), s2)
      | (Inr semester_folder_id, s2) \<Rightarrow>
     (case find_or_create_folder s2 grade (Some semester_folder_id) of
        (Inl e, s3) \<Rightarrow> (Inl (structure_prefix @ e), s3)
      | (Inr grade_folder_id, s3) \<Rightarrow>
     (case find_or_create_folder s3 section (Some grade_folder_id) of
        (Inl e, s4) \<Rightarrow> (Inl (structure_prefix @ e), s4)
      | (Inr section_folder_id, s4) \<Rightarrow> (Inr section_folder_id, s4)))))"


section \<open>The upload (app.py, lines 160 to 202)\<close>

text \<open>
  The media object is built from \<open>io.BytesIO(file_content)\<close> (line 183); an exception of
  any of the three steps is caught at line 201 and raised again with the prefix.
\<close>

definition upload_file_to_drive ::
  "drive \<Rightarrow> pybytes \<Rightarrow> pystr \<Rightarrow> pystr \<Rightarrow> (pystr + pystr) \<times> drive" where
  "upload_file_to_drive service file_content file_name folder_id =
     (let file_metadata = \<lparr>md_name = file_name, md_mimeType = None,
                           md_parents = Some [folder_id]\<rparr>
      in case MediaFileUpload (local_files service) (BytesIO file_content) pdf_mimeType of
           Inl e \<Rightarrow> (Inl (upload_prefix @ e), service)
         | Inr media \<Rightarrow>
        (case files_create service file_metadata (Some media) of
           (Inl e, s2) \<Rightarrow> (Inl (upload_prefix @ e), s2)
         | (Inr file, s2) \<Rightarrow>
        (case permissions_create s2 (res_id file) (text_of ''anyone'', text_of ''reader'') of
           (Inl e, s3) \<Rightarrow> (Inl (upload_prefix @ e), s3)
         | (Inr _, s3) \<Rightarrow> (Inr (res_webViewLink file), s3))))"

section \<open>The database (app.py, lines 76 to 82)\<close>

text \<open>
  Modelled from the spec: the hosted database, which is not part of the repository. Only
  the table \<open>submissions\<close> matters here: the rows inserted so far, and a script of outcomes
  for the coming calls, as for the storage service. A row is the dictionary the handler
  builds, as the list of its items.
\<close>

type_synonym row = "(string \<times> pystr) list"

record database =
  submissions :: "row list"
  db_outcomes :: "pystr option list"
  db_calls :: nat

definition db_advance :: "database \<Rightarrow> database" where
  "db_advance db = db\<lparr>db_outcomes := tl (db_outcomes db), db_calls := Suc (db_calls db)\<rparr>"

text \<open>\<open>table('submissions').insert(data).execute()\<close>: a failed call stores nothing.\<close>

definition table_insert :: "database \<Rightarrow> row \<Rightarrow> (pystr + row list) \<times> database" where
  "table_insert db data =
     (case db_outcomes db of
        Some e # _ \<Rightarrow> (Inl e, db_advance db)
      | _ \<Rightarrow> (Inr [data], (db_advance db)\<lparr>submissions := submissions db @ [data]\<rparr>))"

definition save_submission :: "database \<Rightarrow> row \<Rightarrow> (pystr + row list) \<times> database" where
  "save_submission supabase data =
     (case table_insert supabase data of
        (Inl e, db') \<Rightarrow> (Inl (save_prefix @ e), db')
      | (Inr response_data, db') \<Rightarrow> (Inr response_data, db'))"


section \<open>The submit handler (app.py, lines 288 to 368)\<close>

text \<open>
  The world the handler acts on: the two services and what the clock gives at the two
  readings of \<open>datetime.now()\<close> (as ISO text for the row, formatted for the details). What
  the user is shown is the list of the \<open>st.error\<close>, \<open>st.warning\<close>, \<open>st.success\<close>,
  \<open>st.balloons\<close>, \<open>st.info\<close> and \<open>st.markdown\<close> calls, in order (the spinner around the
  upload is left out). \<open>main_submitted\<close> is the body of \<open>if submitted:\<close>; the \<open>try\<close> block ends
  at the first call that raises, and the \<open>except\<close> clause reports its message. The file is
  read only after validation, where a file is there.
\<close>

record env =
  drive_service :: drive
  supabase :: database
  now_isoformat :: pystr
  now_strftime :: pystr

record config =
  current_year :: pystr
  current_semester :: pystr

datatype ui =
    StError pystr
  | StWarning pystr
  | StSuccess pystr
  | StBalloons
  | StInfo pystr
  | StMarkdown pystr

text \<open>
  Lines 323 and 324: the name under which the file is to be stored,
  \<open>student_name.replace(" ", "_")\<close>, an underscore, \<open>project_title[:30]\<close> and \<open>.pdf\<close>.
\<close>

definition make_file_name :: "pystr \<Rightarrow> pystr \<Rightarrow> pystr" where
  "make_file_name name title =
     (let safe_student_name = replace name [32] [95]
      in safe_student_name @ [95] @ take 30 title @ text_of ''.pdf'')"

definition failure_report :: "pystr \<Rightarrow> ui list" where
  "failure_report e = [StError (main_error_prefix @ e), StWarning msg_not_saved]"

definition success_report :: "env \<Rightarrow> form \<Rightarrow> pystr \<Rightarrow> ui list" where
  "success_report w f file_url =
     [StSuccess msg_success,
      StBalloons,
      StInfo (info_heading @ info_student @ student_name f @ info_project @ project_title f @
              info_grade @ selected_grade f @ info_section @ selected_section f @
              info_date @ now_strftime w @ info_indent),
      StMarkdown (link_label @ file_url @ [41])]"

definition main_submitted :: "env \<Rightarrow> config \<Rightarrow> form \<Rightarrow> ui list \<times> env" where
  "main_submitted w cfg f =
     (let errors = validate f in
      if errors \<noteq> [] then (map StError errors, w)
      else
        (case create_folder_structure (drive_service w) (current_year cfg)
                (current_semester cfg) (selected_grade f) (selected_section f) of
           (Inl e, s1) \<Rightarrow> (failure_report e, w\<lparr>drive_service := s1\<rparr>)
         | (Inr folder_id, s1) \<Rightarrow>
        (let file_name = make_file_name (student_name f) (project_title f);
             file_content = (case uploaded_file f of Some u \<Rightarrow> file_bytes u | None \<Rightarrow> [])
         in case upload_file_to_drive s1 file_content file_name folder_id of
              (Inl e, s2) \<Rightarrow> (failure_report e, w\<lparr>drive_service := s2\<rparr>)
            | (Inr file_url, s2) \<Rightarrow>
        (let submission_data =
               [(''student_name'', strip (student_name f)),
                (''project_title'', strip (project_title f)),
                (''file_url'', file_url),
                (''grade_level'', selected_grade f),
                (''section'', selected_section f),
                (''year'', current_year cfg),
                (''semester'', current_semester cfg),
                (''timestamp'', now_isoformat w)]
         in case save_submission (supabase w) submission_data of
              (Inl e, db') \<Rightarrow>
                (failure_report e, w\<lparr>drive_service := s2, supabase := db'\<rparr>)
            | (Inr _, db') \<Rightarrow>
                (success_report w f file_url,
                 w\<lparr>drive_service := s2, supabase := db'\<rparr>)))))"

section \<open>Names for parts of the functions and for the examples\<close>

text \<open>
  A text is plain if it has no quote and no backslash; these are the texts that stand for
  themselves between the quotes of a search text. The search text and the body
  \<open>find_or_create_folder\<close> builds (lines 102 to 104 and 120 to 125), what the search asks of
  a resource when name and parent id are plain, and a folder as the service stores it.
\<close>

definition plain :: "pystr \<Rightarrow> bool" where
  "plain s = (39 \<notin> set s \<and> 92 \<notin> set s)"

definition plain_parent :: "pystr option \<Rightarrow> bool" where
  "plain_parent p = (case p of None \<Rightarrow> True | Some s \<Rightarrow> plain s)"

definition plain_ids :: "resource list \<Rightarrow> bool" where
  "plain_ids rs = list_all (\<lambda>r. plain (res_id r)) rs"

definition folder_query :: "pystr \<Rightarrow> pystr option \<Rightarrow> pystr" where
  "folder_query n p =
     text_of ''name='' @ [39] @ n @ [39] @
     text_of '' and mimeType='' @ [39] @ folder_mimeType @ [39] @
     (case p of
        None \<Rightarrow> []
      | Some s \<Rightarrow> if s \<noteq> [] then text_of '' and '' @ [39] @ s @ [39] @ text_of '' in parents''
                  else [])"

definition folder_match :: "pystr \<Rightarrow> pystr option \<Rightarrow> resource \<Rightarrow> bool" where
  "folder_match n p r =
     (res_name r = n \<and> res_mimeType r = folder_mimeType \<and>
      (case p of None \<Rightarrow> True | Some s \<Rightarrow> s = [] \<or> s \<in> set (res_parents r)))"

definition folder_body :: "pystr \<Rightarrow> pystr option \<Rightarrow> metadata" where
  "folder_body n p =
     \<lparr>md_name = n, md_mimeType = Some folder_mimeType,
      md_parents = (if truthy p then map_option (\<lambda>s. [s]) p else None)\<rparr>"

definition folder_resource :: "pystr \<Rightarrow> pystr \<Rightarrow> pystr list \<Rightarrow> resource" where
  "folder_resource i n ps =
     \<lparr>res_id = i, res_name = n, res_mimeType = folder_mimeType, res_parents = ps,
      res_content = [], res_permissions = [], res_webViewLink = view_link i\<rparr>"

text \<open>
  The inputs of the worked examples: a service with given resources that lets every request
  succeed, a database with a given script, the configuration and a valid form; and the four
  folders the first submission creates.
\<close>

definition example_drive :: "resource list \<Rightarrow> nat \<Rightarrow> drive" where
  "example_drive rs n = \<lparr>files = rs, outcomes = [], calls = n, local_files = []\<rparr>"

definition example_env :: "pystr option list \<Rightarrow> env" where
  "example_env script =
     \<lparr>drive_service = example_drive [] 0,
      supabase = \<lparr>submissions = [], db_outcomes = script, db_calls = 0\<rparr>,
      now_isoformat = text_of ''2026-01-01T10:00:00'',
      now_strftime = text_of ''2026-01-01 10:00''\<rparr>"

definition example_config :: config where
  "example_config = \<lparr>current_year = text_of ''2025'', current_semester = text_of ''1''\<rparr>"

definition example_form :: form where
  "example_form =
     \<lparr>selected_grade = text_of ''10'', selected_section = text_of ''A'',
      student_name = text_of ''Ahmed Ali Omar'',
      project_title = text_of ''Renewable Energy and Its Future Impact'',
      uploaded_file = Some \<lparr>file_size = 4, file_bytes = [37, 80, 68, 70]\<rparr>\<rparr>"

definition example_folders :: "resource list" where
  "example_folders =
     [folder_resource [120] (text_of ''2025'') [],
      folder_resource [120, 120] (text_of ''1'') [[120]],
      folder_resource [120, 120, 120] (text_of ''10'') [[120, 120]],
      folder_resource [120, 120, 120, 120] (text_of ''A'') [[120, 120, 120]]]"


text \<open>
  A year with quote characters, and the folders a first submission with it creates.
\<close>

definition quoted_year :: pystr where
  "quoted_year = text_of ''x'' @ [39] @ text_of '' or name='' @ [39] @ text_of ''y''"

definition quoted_folders :: "resource list" where
  "quoted_folders =
     [folder_resource [120] quoted_year [],
      folder_resource [120, 120] (text_of ''1'') [[120]],
      folder_resource [120, 120, 120] (text_of ''10'') [[120, 120]],
      folder_resource [120, 120, 120, 120] (text_of ''A'') [[120, 120, 120]]]"


section \<open>Validation: the four rules (app.py, lines 290 to 307)\<close>

lemma strip_Nil: "strip [] = []"
  by (simp add: strip_def)

lemma messages_distinct: "distinct [msg_name, msg_title, msg_nofile, msg_size]"
  by (simp add: msg_name_def msg_title_def msg_nofile_def msg_size_def)

lemma name_message_iff:
  "msg_name \<in> set (validate f) \<longleftrightarrow> length (strip (student_name f)) < 6"
  using messages_distinct by (auto simp: validate_def Let_def strip_Nil split: option.splits)

lemma title_message_iff:
  "msg_title \<in> set (validate f) \<longleftrightarrow> length (strip (project_title f)) < 5"
  using messages_distinct by (auto simp: validate_def Let_def strip_Nil split: option.splits)

lemma nofile_message_iff:
  "msg_nofile \<in> set (validate f) \<longleftrightarrow> uploaded_file f = None"
  using messages_distinct by (auto simp: validate_def Let_def split: option.splits)

lemma size_message_iff:
  "msg_size \<in> set (validate f) \<longleftrightarrow>
     (\<exists>u. uploaded_file f = Some u \<and> 10 * 1024 * 1024 < file_size u)"
  using messages_distinct by (auto simp: validate_def Let_def split: option.splits)

lemma validate_distinct: "distinct (validate f)"
  using messages_distinct by (auto simp: validate_def Let_def split: option.splits)

lemma validate_length: "length (validate f) \<le> 3"
  by (auto simp: validate_def Let_def split: option.splits)

text \<open>Stripping removes whitespace only, so it keeps every character that is not whitespace.\<close>

lemma filter_dropWhile: "filter (\<lambda>c. \<not> P c) (dropWhile P s) = filter (\<lambda>c. \<not> P c) s"
  by (induction s) auto

lemma nonspace_strip: "filter (\<lambda>c. \<not> isspace c) (strip s) = filter (\<lambda>c. \<not> isspace c) s"
  by (simp add: strip_def filter_dropWhile flip: rev_filter)

lemma nonspace_le_strip: "length (filter (\<lambda>c. \<not> isspace c) s) \<le> length (strip s)"
proof -
  have "length (filter (\<lambda>c. \<not> isspace c) (strip s)) \<le> length (strip s)"
    by (rule length_filter_le)
  then show ?thesis by (simp add: nonspace_strip)
qed

text \<open>
  Claim C2, as stated: the name is rejected exactly when it is absent or has fewer than 6
  characters that are not whitespace. This fails: the name \<open>Al Bob\<close> has 5 such characters
  and is accepted, because line 292 measures the stripped name, whose inner space counts.
\<close>

theorem name_rule_counterexample:
  "length (filter (\<lambda>c. \<not> isspace c) (text_of ''Al Bob'')) = 5 \<and>
   msg_name \<notin> set (validate \<lparr>selected_grade = [], selected_section = [],
      student_name = text_of ''Al Bob'', project_title = [], uploaded_file = None\<rparr>)"
  by (simp add: name_message_iff strip_def isspace_def text_of_def)

text \<open>
  Claim C2, amended: the name message is reported exactly when the name is empty or fewer
  than 6 characters are left after removing leading and trailing whitespace (whitespace
  inside the name counts); so every name with at least 6 characters that are not whitespace
  passes.
\<close>

theorem name_rule:
  "(msg_name \<in> set (validate f)) =
     (student_name f = [] \<or> length (strip (student_name f)) < 6) \<and>
   (6 \<le> length (filter (\<lambda>c. \<not> isspace c) (student_name f))
      \<longrightarrow> msg_name \<notin> set (validate f))"
proof
  show "(msg_name \<in> set (validate f)) =
     (student_name f = [] \<or> length (strip (student_name f)) < 6)"
    by (auto simp: name_message_iff strip_Nil)
  show "6 \<le> length (filter (\<lambda>c. \<not> isspace c) (student_name f))
      \<longrightarrow> msg_name \<notin> set (validate f)"
    using nonspace_le_strip [of "student_name f"] by (simp add: name_message_iff)
qed

theorem name_rule_witness:
  "6 \<le> length (filter (\<lambda>c. \<not> isspace c) (text_of '' Ahmed Ali '')) \<and>
   msg_name \<notin> set (validate \<lparr>selected_grade = [], selected_section = [],
      student_name = text_of '' Ahmed Ali '', project_title = [], uploaded_file = None\<rparr>) \<and>
   msg_name \<in> set (validate \<lparr>selected_grade = [], selected_section = [],
      student_name = text_of '' Ahmed '', project_title = [], uploaded_file = None\<rparr>)"
  using
    name_rule [of "\<lparr>selected_grade = [], selected_section = [],
      student_name = text_of '' Ahmed Ali '', project_title = [], uploaded_file = None\<rparr>"]
    name_rule [of "\<lparr>selected_grade = [], selected_section = [],
      student_name = text_of '' Ahmed '', project_title = [], uploaded_file = None\<rparr>"]
  by (simp add: strip_def isspace_def text_of_def)

text \<open>
  Claim C8, as stated: the title is rejected exactly when it is absent or has fewer than 5
  characters that are not whitespace. This fails in the same way: the title \<open>ab cd\<close> has 4
  such characters and is accepted (line 295 measures the stripped title).
\<close>

theorem title_rule_counterexample:
  "length (filter (\<lambda>c. \<not> isspace c) (text_of ''ab cd'')) = 4 \<and>
   msg_title \<notin> set (validate \<lparr>selected_grade = [], selected_section = [],
      student_name = [], project_title = text_of ''ab cd'', uploaded_file = None\<rparr>)"
  by (simp add: title_message_iff strip_def isspace_def text_of_def)

text \<open>
  Claim C8, amended: the title message is reported exactly when the title is empty or fewer
  than 5 characters are left after removing leading and trailing whitespace (whitespace
  inside the title counts): a stripped length of 4 or less is rejected, one of 5 accepted,
  and every title with at least 5 characters that are not whitespace passes.
\<close>

theorem title_rule:
  "(msg_title \<in> set (validate f)) =
     (project_title f = [] \<or> length (strip (project_title f)) \<le> 4) \<and>
   (length (strip (project_title f)) = 5 \<longrightarrow> msg_title \<notin> set (validate f)) \<and>
   (5 \<le> length (filter (\<lambda>c. \<not> isspace c) (project_title f))
      \<longrightarrow> msg_title \<notin> set (validate f))"
proof (intro conjI)
  show "(msg_title \<in> set (validate f)) =
     (project_title f = [] \<or> length (strip (project_title f)) \<le> 4)"
    by (auto simp: title_message_iff strip_Nil)
  show "length (strip (project_title f)) = 5 \<longrightarrow> msg_title \<notin> set (validate f)"
    by (simp add: title_message_iff)
  show "5 \<le> length (filter (\<lambda>c. \<not> isspace c) (project_title f))
      \<longrightarrow> msg_title \<notin> set (validate f)"
    using nonspace_le_strip [of "project_title f"] by (simp add: title_message_iff)
qed

theorem title_rule_witness:
  "length (strip (text_of ''Solar '')) = 5 \<and>
   5 \<le> length (filter (\<lambda>c. \<not> isspace c) (text_of ''Solar '')) \<and>
   msg_title \<notin> set (validate \<lparr>selected_grade = [], selected_section = [],
      student_name = [], project_title = text_of ''Solar '', uploaded_file = None\<rparr>) \<and>
   msg_title \<in> set (validate \<lparr>selected_grade = [], selected_section = [],
      student_name = [], project_title = text_of '' Sun  '', uploaded_file = None\<rparr>)"
  using
    title_rule [of "\<lparr>selected_grade = [], selected_section = [],
      student_name = [], project_title = text_of ''Solar '', uploaded_file = None\<rparr>"]
    title_rule [of "\<lparr>selected_grade = [], selected_section = [],
      student_name = [], project_title = text_of '' Sun  '', uploaded_file = None\<rparr>"]
  by (simp add: strip_def isspace_def text_of_def)

text \<open>
  Claim C7: with a chosen file, a size of exactly 10 MiB (10 * 1024 * 1024 bytes) passes the
  size rule and one byte more is rejected with the size message; in general the size message
  is reported exactly for a chosen file of more than 10 MiB.
\<close>

theorem size_rule:
  "msg_size \<notin> set (validate (f\<lparr>uploaded_file := Some (u\<lparr>file_size := 10 * 1024 * 1024\<rparr>)\<rparr>)) \<and>
   msg_size \<in> set (validate (f\<lparr>uploaded_file := Some (u\<lparr>file_size := 10 * 1024 * 1024 + 1\<rparr>)\<rparr>)) \<and>
   (msg_size \<in> set (validate f)) =
     (\<exists>u. uploaded_file f = Some u \<and> 10 * 1024 * 1024 < file_size u)"
  by (simp add: size_message_iff)

theorem size_rule_witness:
  "validate \<lparr>selected_grade = [], selected_section = [],
      student_name = text_of ''Ahmed Ali Omar'', project_title = text_of ''Solar'',
      uploaded_file = Some \<lparr>file_size = 10485760, file_bytes = []\<rparr>\<rparr> = [] \<and>
   validate \<lparr>selected_grade = [], selected_section = [],
      student_name = text_of ''Ahmed Ali Omar'', project_title = text_of ''Solar'',
      uploaded_file = Some \<lparr>file_size = 10485761, file_bytes = []\<rparr>\<rparr> = [msg_size]"
proof -
  let ?f = "\<lparr>selected_grade = [], selected_section = [],
      student_name = text_of ''Ahmed Ali Omar'', project_title = text_of ''Solar'',
      uploaded_file = None\<rparr>"
  let ?u = "\<lparr>file_size = 0, file_bytes = []\<rparr>"
  have "msg_size \<notin> set (validate (?f\<lparr>uploaded_file := Some (?u\<lparr>file_size := 10 * 1024 * 1024\<rparr>)\<rparr>))"
    and "msg_size \<in> set (validate (?f\<lparr>uploaded_file := Some (?u\<lparr>file_size := 10 * 1024 * 1024 + 1\<rparr>)\<rparr>))"
    using size_rule [where f = ?f and u = ?u] by blast+
  then show ?thesis
    by (simp_all add: validate_def strip_def isspace_def text_of_def)
qed

text \<open>
  Claim C10: the size rule is evaluated only for a chosen file, so the message for a missing
  file and the message for the size are never reported together, and at most three of the
  four messages appear.
\<close>

theorem size_needs_file:
  "(msg_size \<in> set (validate f) \<longrightarrow> uploaded_file f \<noteq> None) \<and>
   \<not> (msg_nofile \<in> set (validate f) \<and> msg_size \<in> set (validate f)) \<and>
   length (validate f) \<le> 3"
  by (auto simp: size_message_iff nofile_message_iff validate_length)

theorem size_needs_file_witness:
  "msg_size \<in> set (validate \<lparr>selected_grade = [], selected_section = [],
      student_name = [], project_title = [],
      uploaded_file = Some \<lparr>file_size = 20000000, file_bytes = []\<rparr>\<rparr>) \<and>
   msg_nofile \<notin> set (validate \<lparr>selected_grade = [], selected_section = [],
      student_name = [], project_title = [],
      uploaded_file = Some \<lparr>file_size = 20000000, file_bytes = []\<rparr>\<rparr>)"
proof -
  let ?f = "\<lparr>selected_grade = [], selected_section = [],
      student_name = [], project_title = [],
      uploaded_file = Some \<lparr>file_size = 20000000, file_bytes = []\<rparr>\<rparr>"
  have "msg_size \<in> set (validate ?f)"
    by (simp add: validate_def)
  then show ?thesis
    using size_needs_file [of ?f] by blast
qed

lemma validate_three:
  "length (strip (student_name f)) < 6 \<Longrightarrow> length (strip (project_title f)) < 5 \<Longrightarrow>
   uploaded_file f = None \<or> (\<exists>u. uploaded_file f = Some u \<and> 10 * 1024 * 1024 < file_size u) \<Longrightarrow>
   length (validate f) = 3"
  by (auto simp: validate_def Let_def)

lemma main_submitted_invalid:
  "validate f \<noteq> [] \<Longrightarrow> main_submitted w cfg f = (map StError (validate f), w)"
  by (simp add: main_submitted_def)

text \<open>
  Claim C3, as stated: all violated rules are reported together and no external call is
  made, and a submission that violates all four rules at once gets four messages. There is
  no such submission: the size rule is tested only on a chosen file, so no form gets the
  message for a missing file together with the message for the size, and no form gets four
  messages.
\<close>

theorem four_messages_counterexample:
  "\<not> (\<exists>f. msg_name \<in> set (validate f) \<and> msg_title \<in> set (validate f) \<and>
           msg_nofile \<in> set (validate f) \<and> msg_size \<in> set (validate f)) \<and>
   \<not> (\<exists>f. length (validate f) = 4)"
proof
  show "\<not> (\<exists>f. msg_name \<in> set (validate f) \<and> msg_title \<in> set (validate f) \<and>
           msg_nofile \<in> set (validate f) \<and> msg_size \<in> set (validate f))"
    by (auto simp: nofile_message_iff size_message_iff)
  show "\<not> (\<exists>f. length (validate f) = 4)"
  proof
    assume "\<exists>f. length (validate f) = 4"
    then obtain f where "length (validate f) = 4" ..
    with validate_length [of f] show False by simp
  qed
qed

text \<open>
  Claim C3, amended: each of the four messages is reported exactly when its rule is
  violated, the reported messages are distinct, and as soon as one rule is violated the
  handler shows exactly these messages and returns the services untouched (no folder
  resolution, upload or insert is called; every request to the storage service would move
  its call counter). A form with a bad name, a bad title and no file or an oversized file
  gets exactly three messages.
\<close>

theorem validation_reports_all:
  "(student_name f = [] \<or> length (strip (student_name f)) < 6) = (msg_name \<in> set (validate f)) \<and>
   (project_title f = [] \<or> length (strip (project_title f)) < 5) = (msg_title \<in> set (validate f)) \<and>
   (uploaded_file f = None) = (msg_nofile \<in> set (validate f)) \<and>
   (\<exists>u. uploaded_file f = Some u \<and> 10 * 1024 * 1024 < file_size u) = (msg_size \<in> set (validate f)) \<and>
   distinct (validate f) \<and>
   (validate f \<noteq> [] \<longrightarrow> main_submitted w cfg f = (map StError (validate f), w)) \<and>
   ((student_name f = [] \<or> length (strip (student_name f)) < 6) \<and>
    (project_title f = [] \<or> length (strip (project_title f)) < 5) \<and>
    (uploaded_file f = None \<or> (\<exists>u. uploaded_file f = Some u \<and> 10 * 1024 * 1024 < file_size u))
      \<longrightarrow> length (validate f) = 3)"
proof (intro conjI)
  show "(student_name f = [] \<or> length (strip (student_name f)) < 6) = (msg_name \<in> set (validate f))"
    by (auto simp: name_message_iff strip_Nil)
  show "(project_title f = [] \<or> length (strip (project_title f)) < 5) = (msg_title \<in> set (validate f))"
    by (auto simp: title_message_iff strip_Nil)
  show "(uploaded_file f = None) = (msg_nofile \<in> set (validate f))"
    by (simp add: nofile_message_iff)
  show "(\<exists>u. uploaded_file f = Some u \<and> 10 * 1024 * 1024 < file_size u) = (msg_size \<in> set (validate f))"
    by (simp add: size_message_iff)
  show "distinct (validate f)"
    by (rule validate_distinct)
  show "validate f \<noteq> [] \<longrightarrow> main_submitted w cfg f = (map StError (validate f), w)"
    by (simp add: main_submitted_invalid)
  show "(student_name f = [] \<or> length (strip (student_name f)) < 6) \<and>
    (project_title f = [] \<or> length (strip (project_title f)) < 5) \<and>
    (uploaded_file f = None \<or> (\<exists>u. uploaded_file f = Some u \<and> 10 * 1024 * 1024 < file_size u))
      \<longrightarrow> length (validate f) = 3"
    using validate_three [of f] by (auto simp: strip_Nil)
qed

theorem validation_reports_all_witness:
  "main_submitted (example_env []) example_config
     \<lparr>selected_grade = text_of ''10'', selected_section = text_of ''A'',
      student_name = text_of ''Ali'', project_title = text_of ''Sun'',
      uploaded_file = Some \<lparr>file_size = 10485761, file_bytes = []\<rparr>\<rparr> =
   ([StError msg_name, StError msg_title, StError msg_size], example_env [])"
proof -
  let ?f = "\<lparr>selected_grade = text_of ''10'', selected_section = text_of ''A'',
      student_name = text_of ''Ali'', project_title = text_of ''Sun'',
      uploaded_file = Some \<lparr>file_size = 10485761, file_bytes = []\<rparr>\<rparr>"
  have v: "validate ?f = [msg_name, msg_title, msg_size]"
    by (simp add: validate_def strip_def isspace_def text_of_def)
  show ?thesis
    using validation_reports_all [where f = ?f] by (simp add: v)
qed


section \<open>The storage service: what a request returns\<close>

lemma files_advance [simp]: "files (advance d) = files d"
  by (simp add: advance_def)

lemma local_files_advance [simp]: "local_files (advance d) = local_files d"
  by (simp add: advance_def)

lemma outcome_at_advance [simp]: "outcome_at (advance d) k = outcome_at d (Suc k)"
  by (simp add: outcome_at_def advance_def drop_Suc)

lemma outcome_at_files_update [simp]: "outcome_at (d\<lparr>files := rs\<rparr>) k = outcome_at d k"
  by (simp add: outcome_at_def)

lemma advance_files_update [simp]: "advance (d\<lparr>files := rs\<rparr>) = (advance d)\<lparr>files := rs\<rparr>"
  by (simp add: advance_def)

lemma calls_advance [simp]: "calls (advance d) = Suc (calls d)"
  by (simp add: advance_def)

lemma outcome_at_example [simp]: "outcome_at (example_drive rs n) k = None"
  by (simp add: outcome_at_def example_drive_def)

lemma advance_example [simp]: "advance (example_drive rs n) = example_drive rs (Suc n)"
  by (simp add: advance_def example_drive_def)

lemma files_example [simp]: "files (example_drive rs n) = rs"
  by (simp add: example_drive_def)

lemma example_files_update [simp]:
  "(example_drive rs n)\<lparr>files := rs'\<rparr> = example_drive rs' n"
  by (simp add: example_drive_def)

text \<open>A new id is longer than every id in storage, so it is new, not empty and plain.\<close>

lemma id_length_le: "r \<in> set rs \<Longrightarrow> length (res_id r) \<le> max_id_length rs"
  by (induction rs) auto

lemma fresh_id_new: "r \<in> set rs \<Longrightarrow> res_id r \<noteq> fresh_id rs"
proof
  assume mem: "r \<in> set rs" and eq: "res_id r = fresh_id rs"
  from mem have "length (res_id r) \<le> max_id_length rs" by (rule id_length_le)
  moreover have "length (res_id r) = Suc (max_id_length rs)"
    by (simp add: eq fresh_id_def)
  ultimately show False by simp
qed

lemma fresh_id_not_empty: "fresh_id rs \<noteq> []"
  by (simp add: fresh_id_def)

lemma fresh_id_plain: "plain (fresh_id rs)"
  by (simp add: fresh_id_def plain_def)

lemma files_list_fails:
  "outcome_at d 0 = Some e \<Longrightarrow> files_list d q k = (Inl e, advance d)"
  by (simp add: files_list_def execute_def)

lemma files_create_ok:
  "outcome_at d 0 = None \<Longrightarrow>
   files_create d body mb =
     (Inr (created (files d) body mb), (advance d)\<lparr>files := files d @ [created (files d) body mb]\<rparr>)"
  by (simp add: files_create_def execute_def Let_def)

lemma files_create_fails:
  "outcome_at d 0 = Some e \<Longrightarrow> files_create d body mb = (Inl e, advance d)"
  by (simp add: files_create_def execute_def)


section \<open>How the search text of a folder is read\<close>

text \<open>
  Between quotes a plain text is read as itself. So for a plain name and a plain parent
  id the search text of lines 102 to 104 asks for the name, the folder type and, if a
  parent is given, the parent.
\<close>

lemma folder_mimeType_plain: "plain folder_mimeType"
  by (simp add: folder_mimeType_def plain_def text_of_def)

lemma plain_text [simp]:
  "plain (text_of ''2025'')" "plain (text_of ''1'')" "plain (text_of ''10'')"
  "plain (text_of ''A'')"
  by (simp_all add: plain_def text_of_def)

lemma lex_quoted_plain:
  "plain v \<Longrightarrow> lex_quoted acc (v @ 39 # rest) =
     map_option (Cons (Quoted (rev acc @ v))) (lex [] rest)"
proof (induction v arbitrary: acc)
  case Nil
  then show ?case by (cases rest) simp_all
next
  case (Cons c v)
  then have c: "c \<noteq> 39" "c \<noteq> 92" and v: "plain v" by (auto simp: plain_def)
  obtain e cs where "v @ 39 # rest = e # cs" by (cases v) auto
  with c Cons.IH [OF v, of "c # acc"] show ?case by simp
qed

lemma parse_folder_query:
  assumes "plain n" "plain_parent p"
  shows "parse_query (folder_query n p) =
     Some [[NameIs n, MimeTypeIs folder_mimeType] @
           (case p of None \<Rightarrow> [] | Some s \<Rightarrow> if s \<noteq> [] then [InParents s] else [])]"
proof -
  have q: "\<And>rest. lex_quoted [] (n @ 39 # rest) = map_option (Cons (Quoted n)) (lex [] rest)"
    using lex_quoted_plain [OF assms(1), of "[]"] by simp
  have m: "\<And>rest. lex_quoted [] (folder_mimeType @ 39 # rest) =
      map_option (Cons (Quoted folder_mimeType)) (lex [] rest)"
    using lex_quoted_plain [OF folder_mimeType_plain, of "[]"] by simp
  show ?thesis
  proof (cases "truthy p")
    case False
    then have "folder_query n p = text_of ''name='' @ [39] @ n @ [39] @
        text_of '' and mimeType='' @ [39] @ folder_mimeType @ [39]"
      by (auto simp: folder_query_def truthy_def split: option.splits)
    moreover from False have "(case p of None \<Rightarrow> [] | Some s \<Rightarrow> if s \<noteq> [] then [InParents s] else []) = []"
      by (auto simp: truthy_def split: option.splits)
    ultimately show ?thesis
      by (simp add: parse_query_def text_of_def q m field_cond_def)
  next
    case True
    then obtain s where s: "p = Some s" "s \<noteq> []" 
      by (auto simp: truthy_def split: option.splits)
    with assms(2) have "plain s" by (simp add: plain_parent_def)
    then have ps: "\<And>rest. lex_quoted [] (s @ 39 # rest) = map_option (Cons (Quoted s)) (lex [] rest)"
      using lex_quoted_plain [of s "[]"] by simp
    show ?thesis
      by (simp add: s folder_query_def parse_query_def text_of_def q m ps field_cond_def)
  qed
qed

lemma matches_folder_conds:
  "matches [[NameIs n, MimeTypeIs folder_mimeType] @
            (case p of None \<Rightarrow> [] | Some s \<Rightarrow> if s \<noteq> [] then [InParents s] else [])] r =
   folder_match n p r"
  by (auto simp: matches_def folder_match_def split: option.splits)

lemma files_list_folder:
  assumes "plain n" "plain_parent p" "outcome_at d 0 = None"
  shows "files_list d (folder_query n p) k =
     (Inr (take k (filter (folder_match n p) (files d))), advance d)"
proof -
  have "filter (matches [[NameIs n, MimeTypeIs folder_mimeType] @
            (case p of None \<Rightarrow> [] | Some s \<Rightarrow> if s \<noteq> [] then [InParents s] else [])]) (files d)
        = filter (folder_match n p) (files d)"
    by (rule filter_cong) (simp_all only: matches_folder_conds)
  then show ?thesis
    using assms(3)
    by (simp add: files_list_def execute_def parse_folder_query [OF assms(1,2)])
qed


section \<open>Folder lookup and creation\<close>

lemma find_or_create_folder_eq:
  "find_or_create_folder d n p =
     (case files_list d (folder_query n p) 1 of
        (Inl e, s1) \<Rightarrow> (Inl (folder_error n e), s1)
      | (Inr found, s1) \<Rightarrow>
          (case found of
             r # _ \<Rightarrow> (Inr (res_id r), s1)
           | [] \<Rightarrow>
               (case files_create s1 (folder_body n p) None of
                  (Inl e, s2) \<Rightarrow> (Inl (folder_error n e), s2)
                | (Inr folder, s2) \<Rightarrow> (Inr (res_id folder), s2))))"
proof -
  have q: "(case p of
              None \<Rightarrow> text_of ''name='' @ [39] @ n @ [39] @
                        text_of '' and mimeType='' @ [39] @ folder_mimeType @ [39]
            | Some s \<Rightarrow>
                if s \<noteq> []
                then (text_of ''name='' @ [39] @ n @ [39] @
                      text_of '' and mimeType='' @ [39] @ folder_mimeType @ [39]) @
                     text_of '' and '' @ [39] @ s @ [39] @ text_of '' in parents''
                else text_of ''name='' @ [39] @ n @ [39] @
                     text_of '' and mimeType='' @ [39] @ folder_mimeType @ [39]) =
           folder_query n p"
    by (simp add: folder_query_def split: option.splits)
  show ?thesis
    unfolding find_or_create_folder_def Let_def q
    by (cases "truthy p")
       (simp_all add: folder_body_def split: prod.splits sum.splits list.splits)
qed

lemma created_folder:
  "created rs (folder_body n p) None =
     folder_resource (fresh_id rs) n (case p of None \<Rightarrow> [] | Some s \<Rightarrow> if s = [] then [] else [s])"
  by (simp add: created_def folder_body_def folder_resource_def truthy_def split: option.splits)

lemma folder_resource_sel [simp]:
  "res_id (folder_resource i n ps) = i"
  "res_name (folder_resource i n ps) = n"
  "res_mimeType (folder_resource i n ps) = folder_mimeType"
  "res_parents (folder_resource i n ps) = ps"
  by (simp_all add: folder_resource_def)

lemma created_folder_matches:
  "folder_match n p (created rs (folder_body n p) None)"
  by (auto simp: created_folder folder_match_def split: option.splits)

lemma focf_found:
  "plain n \<Longrightarrow> plain_parent p \<Longrightarrow> outcome_at d 0 = None \<Longrightarrow>
   filter (folder_match n p) (files d) = r # rest \<Longrightarrow>
   find_or_create_folder d n p = (Inr (res_id r), advance d)"
  by (simp add: find_or_create_folder_eq files_list_folder)

lemma focf_created:
  "plain n \<Longrightarrow> plain_parent p \<Longrightarrow> outcome_at d 0 = None \<Longrightarrow> outcome_at d (Suc 0) = None \<Longrightarrow>
   filter (folder_match n p) (files d) = [] \<Longrightarrow>
   find_or_create_folder d n p =
     (Inr (fresh_id (files d)),
      (advance (advance d))\<lparr>files := files d @ [created (files d) (folder_body n p) None]\<rparr>)"
  by (simp add: find_or_create_folder_eq files_list_folder files_create_ok created_def)

text \<open>
  Claim C1, as stated: the id of the matching folder is returned if exactly one folder
  matches, and in every other case (no match, or more than one) a new folder is created.
  This fails for more than one match: with two folders of the searched name in storage the
  call returns the id of the first and creates nothing (line 115 tests that the answer of
  the search, cut to one entry by \<open>pageSize=1\<close>, is not empty).
\<close>

theorem find_or_create_folder_counterexample:
  "length (filter (\<lambda>r. res_name r = text_of ''2025'' \<and> res_mimeType r = folder_mimeType)
      [folder_resource (text_of ''f1'') (text_of ''2025'') [],
       folder_resource (text_of ''f2'') (text_of ''2025'') []]) = 2 \<and>
   find_or_create_folder
     (example_drive [folder_resource (text_of ''f1'') (text_of ''2025'') [],
                     folder_resource (text_of ''f2'') (text_of ''2025'') []] 0)
     (text_of ''2025'') None =
   (Inr (text_of ''f1''),
    example_drive [folder_resource (text_of ''f1'') (text_of ''2025'') [],
                   folder_resource (text_of ''f2'') (text_of ''2025'') []] 1)"
proof -
  let ?a = "folder_resource (text_of ''f1'') (text_of ''2025'') []"
  let ?b = "folder_resource (text_of ''f2'') (text_of ''2025'') []"
  have "filter (folder_match (text_of ''2025'') None) (files (example_drive [?a, ?b] 0)) = [?a, ?b]"
    by (simp add: folder_match_def)
  then have "find_or_create_folder (example_drive [?a, ?b] 0) (text_of ''2025'') None =
      (Inr (text_of ''f1''), example_drive [?a, ?b] 1)"
    by (simp add: focf_found [where r = ?a and rest = "[?b]"] plain_parent_def)
  then show ?thesis by simp
qed

text \<open>
  Claim C1, amended: for a folder name and a parent id without quote and backslash
  characters, when the search request succeeds and at least one folder has the name (and,
  for a parent id that is given and not empty, that parent), the call returns the id of the
  first such folder in the order of the search and stores nothing; with exactly one match
  that is this folder's id. When no folder matches and the create request succeeds too, the
  call stores one new folder of that name under the given parent (at the root if no parent
  or an empty one is given) and returns its id, which no resource had before.
\<close>

theorem find_or_create_folder_first_match:
  "let M = filter (\<lambda>r. res_name r = folder_name \<and> res_mimeType r = folder_mimeType \<and>
                    (case parent_id of None \<Rightarrow> True
                     | Some p \<Rightarrow> p = [] \<or> p \<in> set (res_parents r))) (files d);
       i = fresh_id (files d);
       new = folder_resource i folder_name
               (case parent_id of None \<Rightarrow> [] | Some p \<Rightarrow> if p = [] then [] else [p])
   in (plain folder_name \<and> plain_parent parent_id \<and>
       outcome_at d 0 = None \<and> M = r # rest \<longrightarrow>
         find_or_create_folder d folder_name parent_id = (Inr (res_id r), advance d)) \<and>
      (plain folder_name \<and> plain_parent parent_id \<and>
       outcome_at d 0 = None \<and> outcome_at d 1 = None \<and> M = [] \<longrightarrow>
         find_or_create_folder d folder_name parent_id =
           (Inr i, (advance (advance d))\<lparr>files := files d @ [new]\<rparr>) \<and>
         i \<notin> set (map res_id (files d)))"
proof -
  have M: "filter (\<lambda>r. res_name r = folder_name \<and> res_mimeType r = folder_mimeType \<and>
                    (case parent_id of None \<Rightarrow> True
                     | Some p \<Rightarrow> p = [] \<or> p \<in> set (res_parents r))) (files d)
           = filter (folder_match folder_name parent_id) (files d)"
    by (rule filter_cong) (simp_all add: folder_match_def)
  show ?thesis
    unfolding Let_def M
    by (auto simp: focf_found focf_created created_folder dest: fresh_id_new)
qed

theorem find_or_create_folder_first_match_witness:
  "find_or_create_folder
     (example_drive [folder_resource (text_of ''f1'') (text_of ''2025'') []] 0)
     (text_of ''2025'') None =
   (Inr (text_of ''f1''),
    example_drive [folder_resource (text_of ''f1'') (text_of ''2025'') []] 1) \<and>
   find_or_create_folder (example_drive [] 0) (text_of ''2025'') None =
   (Inr [120], example_drive [folder_resource [120] (text_of ''2025'') []] 2)"
  using
    find_or_create_folder_first_match [where d = "example_drive [folder_resource (text_of ''f1'')
        (text_of ''2025'') []] 0" and folder_name = "text_of ''2025''"
      and parent_id = None and r = "folder_resource (text_of ''f1'') (text_of ''2025'') []"
      and rest = "[]"]
    find_or_create_folder_first_match [where d = "example_drive [] 0"
      and folder_name = "text_of ''2025''" and parent_id = None]
  by (simp add: Let_def fresh_id_def plain_parent_def numeral_2_eq_2)


section \<open>The folder path\<close>

text \<open>
  For plain names, a successful lookup-or-create leaves a folder in storage that the same
  search finds first, and storage only grows at the end; so the same call on a later
  storage finds it again without creating anything. The ids the calls return are plain if
  the ids in storage are.
\<close>

lemma focf_result:
  assumes "plain n" "plain_parent p" "find_or_create_folder d n p = (Inr i, d')"
  shows "\<exists>r rest ys. filter (folder_match n p) (files d') = r # rest \<and>
           res_id r = i \<and> files d' = files d @ ys"
proof (cases "outcome_at d 0")
  case (Some e)
  with assms show ?thesis
    by (simp add: find_or_create_folder_eq files_list_fails)
next
  case None
  show ?thesis
  proof (cases "filter (folder_match n p) (files d)")
    case (Cons r rest)
    with None assms show ?thesis
      by (auto simp: focf_found)
  next
    case Nil
    show ?thesis
    proof (cases "outcome_at d (Suc 0)")
      case (Some e)
      with None Nil assms show ?thesis
        by (simp add: find_or_create_folder_eq files_list_folder files_create_fails)
    next
      case None': None
      from None None' Nil assms show ?thesis
        by (auto simp: focf_created created_folder_matches) (simp add: created_def)
    qed
  qed
qed

lemma focf_again:
  assumes "plain n" "plain_parent p" "find_or_create_folder d n p = (Inr i, d')"
    and "files d2 = files d' @ ys" and "outcome_at d2 0 = None"
  shows "find_or_create_folder d2 n p = (Inr i, advance d2)"
proof -
  from focf_result [OF assms(1,2,3)] obtain r rest where
    "filter (folder_match n p) (files d') = r # rest" and "res_id r = i"
    by blast
  then have "filter (folder_match n p) (files d2) =
      r # (rest @ filter (folder_match n p) ys)"
    by (simp add: assms(4))
  with assms(1,2,5) \<open>res_id r = i\<close> show ?thesis
    by (simp add: focf_found)
qed

lemma focf_extends:
  assumes "plain n" "plain_parent p" "find_or_create_folder d n p = (Inr i, d')"
  shows "\<exists>ys. files d' = files d @ ys"
  using focf_result [OF assms] by blast

lemma focf_plain_ids:
  assumes "plain_ids (files d)" "find_or_create_folder d n p = (Inr i, d')"
  shows "plain i \<and> plain_ids (files d')"
proof -
  have take1: "\<And>P r rest. take (Suc 0) (filter P (files d)) = r # rest \<Longrightarrow> plain (res_id r)"
  proof -
    fix P r rest assume "take (Suc 0) (filter P (files d)) = r # rest"
    then have "r \<in> set (take (Suc 0) (filter P (files d)))" by simp
    then have "r \<in> set (files d)" by (auto dest: in_set_takeD)
    with assms(1) show "plain (res_id r)" by (simp add: plain_ids_def list_all_iff)
  qed
  from assms show ?thesis
    by (auto simp: find_or_create_folder_eq files_list_def files_create_def execute_def Let_def
        created_def fresh_id_plain plain_ids_def
        split: prod.splits sum.splits list.splits option.splits dest: take1)
qed

lemma example_first_run:
  "create_folder_structure (example_drive [] 0)
      (text_of ''2025'') (text_of ''1'') (text_of ''10'') (text_of ''A'') =
     (Inr [120, 120, 120, 120], example_drive example_folders 8)"
proof -
  let ?y = "folder_resource [120] (text_of ''2025'') []"
  let ?s = "folder_resource [120, 120] (text_of ''1'') [[120]]"
  let ?g = "folder_resource [120, 120, 120] (text_of ''10'') [[120, 120]]"
  let ?c = "folder_resource [120, 120, 120, 120] (text_of ''A'') [[120, 120, 120]]"
  have p: "plain_parent (Some [120])" "plain_parent (Some [120, 120])"
    "plain_parent (Some [120, 120, 120])"
    by (simp_all add: plain_parent_def plain_def)
  have a: "find_or_create_folder (example_drive [] 0) (text_of ''2025'') None =
      (Inr [120], example_drive [?y] 2)"
    by (simp add: focf_created created_folder fresh_id_def plain_parent_def numeral_2_eq_2)
  have b: "find_or_create_folder (example_drive [?y] 2) (text_of ''1'') (Some [120]) =
      (Inr [120, 120], example_drive [?y, ?s] 4)"
    by (simp add: focf_created p created_folder fresh_id_def folder_match_def text_of_def
        plain_def)
  have c: "find_or_create_folder (example_drive [?y, ?s] 4) (text_of ''10'') (Some [120, 120]) =
      (Inr [120, 120, 120], example_drive [?y, ?s, ?g] 6)"
    by (simp add: focf_created p created_folder fresh_id_def folder_match_def text_of_def
        plain_def)
  have e: "find_or_create_folder (example_drive [?y, ?s, ?g] 6) (text_of ''A'')
        (Some [120, 120, 120]) =
      (Inr [120, 120, 120, 120], example_drive [?y, ?s, ?g, ?c] 8)"
    by (simp add: focf_created p created_folder fresh_id_def folder_match_def text_of_def
        plain_def)
  show ?thesis
    by (simp add: create_folder_structure_def a b c e example_folders_def)
qed

text \<open>
  Claim C5, as stated: for every year, semester, grade and section a second call of
  \<open>create_folder_structure\<close> on the storage the first call left returns the same id and
  creates nothing. This fails for a name with quote characters, which line 102 pastes into
  the search text as it is: for the year \<open>x' or name='y\<close> the search asks for a resource
  named \<open>x\<close> or a folder named \<open>y\<close>, the folder the first call created under the year's own
  name is not found, and the second call creates four more folders and returns another id.
\<close>

lemma parse_quoted_year:
  "parse_query (folder_query quoted_year None) =
     Some [[NameIs (text_of ''x'')], [NameIs (text_of ''y''), MimeTypeIs folder_mimeType]]"
proof -
  have m: "\<And>rest. lex_quoted [] (folder_mimeType @ 39 # rest) =
      map_option (Cons (Quoted folder_mimeType)) (lex [] rest)"
    using lex_quoted_plain [OF folder_mimeType_plain, of "[]"] by simp
  show ?thesis
    by (simp add: folder_query_def quoted_year_def parse_query_def text_of_def m field_cond_def)
qed

lemma quoted_year_search:
  assumes "outcome_at d 0 = None" "outcome_at d (Suc 0) = None"
    and "\<forall>r \<in> set (files d). res_name r \<noteq> text_of ''x'' \<and> res_name r \<noteq> text_of ''y''"
  shows "find_or_create_folder d quoted_year None =
     (Inr (fresh_id (files d)),
      (advance (advance d))\<lparr>files := files d @ [folder_resource (fresh_id (files d)) quoted_year []]\<rparr>)"
proof -
  have "filter (matches [[NameIs (text_of ''x'')],
      [NameIs (text_of ''y''), MimeTypeIs folder_mimeType]]) (files d) = []"
    using assms(3) by (auto simp: filter_empty_conv matches_def)
  then have "files_list d (folder_query quoted_year None) 1 = (Inr [], advance d)"
    using assms(1) by (simp add: files_list_def execute_def parse_quoted_year)
  then show ?thesis
    using assms(2)
    by (simp add: find_or_create_folder_eq files_create_ok created_folder)
qed





section \<open>The upload\<close>

lemma MediaFileUpload_BytesIO:
  "MediaFileUpload local (BytesIO content) mimetype = Inl type_error_BytesIO"
  by (simp add: MediaFileUpload_def)

lemma upload_fails:
  "upload_file_to_drive d c n fid = (Inl (upload_prefix @ type_error_BytesIO), d)"
  by (simp add: upload_file_to_drive_def MediaFileUpload_BytesIO)

text \<open>
  Claim C9 says that \<open>upload_file_to_drive\<close> creates a file under \<open>folder_id\<close>, grants the
  read permission and returns the view link. The code does not: line 182 builds the media
  object with \<open>MediaFileUpload\<close>, which opens its first argument as a file path, from the
  \<open>io.BytesIO\<close> of line 183. The constructor raises on every input, before any request is
  sent; the function raises the upload failure with that cause and the service is left as
  it was, with no file created and no permission granted.
\<close>

theorem upload_file_to_drive_raises:
  "upload_file_to_drive service file_content file_name folder_id =
     (Inl (upload_prefix @ type_error_BytesIO), service)"
  by (simp add: upload_file_to_drive_def MediaFileUpload_def)


section \<open>The submit handler\<close>

lemma main_submitted_valid:
  assumes "validate f = []"
  shows "main_submitted w cfg f =
     (case create_folder_structure (drive_service w) (current_year cfg) (current_semester cfg)
             (selected_grade f) (selected_section f) of
        (Inl e, s1) \<Rightarrow> (failure_report e, w\<lparr>drive_service := s1\<rparr>)
      | (Inr folder_id, s1) \<Rightarrow>
          (failure_report (upload_prefix @ type_error_BytesIO), w\<lparr>drive_service := s1\<rparr>))"
  using assms
  by (simp add: main_submitted_def Let_def upload_fails split: prod.splits sum.splits)

lemma insert_never_called: "supabase (snd (main_submitted w cfg f)) = supabase w"
proof (cases "validate f = []")
  case True
  then show ?thesis
    by (simp add: main_submitted_valid split: prod.splits sum.splits)
next
  case False
  then show ?thesis by (simp add: main_submitted_invalid)
qed

lemma never_success: "StSuccess m \<notin> set (fst (main_submitted w cfg f))"
proof (cases "validate f = []")
  case True
  then show ?thesis
    by (auto simp: main_submitted_valid failure_report_def split: prod.splits sum.splits)
next
  case False
  then show ?thesis by (auto simp: main_submitted_invalid)
qed

lemma example_form_valid: "validate example_form = []"
  by (simp add: validate_def example_form_def strip_def isspace_def text_of_def)


text \<open>
  Claim C4: the name generated for the upload (lines 323 and 324) is the student name with
  each space replaced by an underscore, then an underscore, then the first 30 characters of
  the project title as they are, then \<open>.pdf\<close>; for the student Ahmed Ali Omar and the title
  Renewable Energy and Its Future Impact this is
  \<open>Ahmed_Ali_Omar_Renewable Energy and Its Futur.pdf\<close>. This holds for every name and
  title, so for the name generated in every submission.
\<close>

lemma replace_char: "replace s [a] [b] = map (\<lambda>c. if c = a then b else c) s"
  by (induction s) auto


text \<open>
  Every request to the storage service is counted, and a run that passes validation starts
  with such a request; so a run that returns the services untouched has made none.
\<close>

lemma find_or_create_folder_calls:
  "calls d < calls (snd (find_or_create_folder d n p))"
  by (auto simp: find_or_create_folder_eq files_list_def files_create_def execute_def Let_def
      split: prod.splits sum.splits list.splits option.splits)

lemma create_folder_structure_calls:
  "calls d < calls (snd (create_folder_structure d y s g c))"
proof -
  have step: "\<And>d n p r d'. find_or_create_folder d n p = (r, d') \<Longrightarrow> calls d < calls d'"
    using find_or_create_folder_calls by (metis snd_conv)
  show ?thesis
    by (auto simp: create_folder_structure_def split: prod.splits sum.splits
        dest!: step)
qed

lemma main_submitted_valid_calls:
  assumes "validate f = []"
  shows "calls (drive_service w) < calls (drive_service (snd (main_submitted w cfg f)))"
proof -
  have a: "\<And>d y s g c r d'. create_folder_structure d y s g c = (r, d') \<Longrightarrow> calls d < calls d'"
    using create_folder_structure_calls by (metis snd_conv)
  show ?thesis
    using assms
    by (auto simp: main_submitted_valid split: prod.splits sum.splits dest!: a)
qed

end
